theory Spec2Isabelle
  imports Main
begin

section \<open>Liquidity provision ABCI application: rounds and transition table\<close>

text \<open>
  The development follows \<^verbatim>\<open>packages/valory/skills/liquidity_provision/rounds.py\<close> and
  \<^verbatim>\<open>packages/valory/contracts/service_registry/contract.py\<close>. Python classes that only
  serve as keys of the transition table are constructors of a datatype, a dict display is
  the list of its key/value pairs in source order, and evaluating the display stores the
  pairs one after the other, so that a later pair overwrites an earlier one with the same
  key.
\<close>

subsection \<open>Events and round classes\<close>

text \<open>\<^verbatim>\<open>class Event(Enum)\<close>, rounds.py lines 57-65.\<close>

datatype Event = DONE | EXIT | ROUND_TIMEOUT | NO_MAJORITY | RESET_TIMEOUT | WAIT

text \<open>
  The round classes that occur in \<^verbatim>\<open>LiquidityProvisionAbciApp.transition_function\<close>:
  the two imported ones (\<^verbatim>\<open>ResetRound\<close>, \<^verbatim>\<open>ResetAndPauseRound\<close>) and the nineteen
  concrete classes of rounds.py lines 276-422.
\<close>

datatype Round =
    ResetRound
  | ResetAndPauseRound
  | StrategyEvaluationRound
  | EnterPoolTransactionHashRound
  | EnterPoolTransactionSignatureRound
  | EnterPoolTransactionSendRound
  | EnterPoolTransactionValidationRound
  | EnterPoolRandomnessRound
  | EnterPoolSelectKeeperRound
  | ExitPoolTransactionHashRound
  | ExitPoolTransactionSignatureRound
  | ExitPoolTransactionSendRound
  | ExitPoolTransactionValidationRound
  | ExitPoolRandomnessRound
  | ExitPoolSelectKeeperRound
  | SwapBackTransactionHashRound
  | SwapBackTransactionSignatureRound
  | SwapBackTransactionSendRound
  | SwapBackTransactionValidationRound
  | SwapBackRandomnessRound
  | SwapBackSelectKeeperRound

subsection \<open>Dict displays\<close>

text \<open>
  Python evaluates \<^verbatim>\<open>{k1: v1, k2: v2, ...}\<close> left to right, storing each pair in turn;
  a key that is written twice keeps the value stored last.
\<close>

fun dict_store :: "('k \<rightharpoonup> 'v) \<Rightarrow> ('k \<times> 'v) list \<Rightarrow> ('k \<rightharpoonup> 'v)" where
  "dict_store m [] = m"
| "dict_store m ((k, v) # kvs) = dict_store (m(k \<mapsto> v)) kvs"

definition dict_display :: "('k \<times> 'v) list \<Rightarrow> ('k \<rightharpoonup> 'v)" where
  "dict_display kvs = dict_store Map.empty kvs"

subsection \<open>The transition table\<close>

text \<open>
  The display of rounds.py lines 429-537, pair by pair and in source order, the repeated
  \<^verbatim>\<open>Event.ROUND_TIMEOUT\<close> keys of the three validation rounds included.
\<close>

definition transition_function_display :: "(Round \<times> (Event \<times> Round) list) list" where
  "transition_function_display =
    [(ResetRound,
        [(DONE, StrategyEvaluationRound)]),
     (StrategyEvaluationRound,
        [(DONE, EnterPoolTransactionHashRound),
         (WAIT, ResetAndPauseRound),
         (ROUND_TIMEOUT, ResetRound),
         (NO_MAJORITY, ResetRound)]),
     (EnterPoolTransactionHashRound,
        [(DONE, EnterPoolTransactionSignatureRound),
         (ROUND_TIMEOUT, ResetRound),
         (NO_MAJORITY, ResetRound)]),
     (EnterPoolTransactionSignatureRound,
        [(DONE, EnterPoolTransactionSendRound),
         (ROUND_TIMEOUT, ResetRound),
         (NO_MAJORITY, ResetRound)]),
     (EnterPoolTransactionSendRound,
        [(DONE, EnterPoolTransactionValidationRound),
         (ROUND_TIMEOUT, ResetRound),
         (NO_MAJORITY, ResetRound)]),
     (EnterPoolTransactionValidationRound,
        [(DONE, ResetAndPauseRound),
         (ROUND_TIMEOUT, ResetRound),
         (NO_MAJORITY, ResetRound),
         (ROUND_TIMEOUT, EnterPoolRandomnessRound)]),
     (EnterPoolRandomnessRound,
        [(DONE, EnterPoolSelectKeeperRound),
         (ROUND_TIMEOUT, ResetRound),
         (NO_MAJORITY, ResetRound)]),
     (EnterPoolSelectKeeperRound,
        [(DONE, ExitPoolTransactionHashRound),
         (ROUND_TIMEOUT, ResetRound),
         (NO_MAJORITY, ResetRound)]),
     (ExitPoolTransactionHashRound,
        [(DONE, ExitPoolTransactionSignatureRound),
         (ROUND_TIMEOUT, ResetRound),
         (NO_MAJORITY, ResetRound)]),
     (ExitPoolTransactionSignatureRound,
        [(DONE, ExitPoolTransactionSendRound),
         (ROUND_TIMEOUT, ResetRound),
         (NO_MAJORITY, ResetRound)]),
     (ExitPoolTransactionSendRound,
        [(DONE, ExitPoolTransactionValidationRound),
         (ROUND_TIMEOUT, ResetRound),
         (NO_MAJORITY, ResetRound)]),
     (ExitPoolTransactionValidationRound,
        [(DONE, SwapBackTransactionHashRound),
         (ROUND_TIMEOUT, ResetRound),
         (NO_MAJORITY, ResetRound),
         (ROUND_TIMEOUT, ExitPoolRandomnessRound)]),
     (ExitPoolRandomnessRound,
        [(DONE, ExitPoolSelectKeeperRound),
         (ROUND_TIMEOUT, ResetRound),
         (NO_MAJORITY, ResetRound)]),
     (ExitPoolSelectKeeperRound,
        [(DONE, ExitPoolTransactionHashRound),
         (ROUND_TIMEOUT, ResetRound),
         (NO_MAJORITY, ResetRound)]),
     (SwapBackTransactionHashRound,
        [(DONE, SwapBackTransactionSignatureRound),
         (ROUND_TIMEOUT, ResetRound),
         (NO_MAJORITY, ResetRound)]),
     (SwapBackTransactionSignatureRound,
        [(DONE, SwapBackTransactionSendRound),
         (ROUND_TIMEOUT, ResetRound),
         (NO_MAJORITY, ResetRound)]),
     (SwapBackTransactionSendRound,
        [(DONE, SwapBackTransactionValidationRound),
         (ROUND_TIMEOUT, ResetRound),
         (NO_MAJORITY, ResetRound)]),
     (SwapBackTransactionValidationRound,
        [(DONE, ResetAndPauseRound),
         (ROUND_TIMEOUT, ResetRound),
         (NO_MAJORITY, ResetRound),
         (ROUND_TIMEOUT, SwapBackRandomnessRound)]),
     (SwapBackRandomnessRound,
        [(DONE, SwapBackSelectKeeperRound),
         (ROUND_TIMEOUT, ResetRound),
         (NO_MAJORITY, ResetRound)]),
     (SwapBackSelectKeeperRound,
        [(DONE, SwapBackTransactionHashRound),
         (ROUND_TIMEOUT, ResetRound),
         (NO_MAJORITY, ResetRound)]),
     (ResetAndPauseRound,
        [(DONE, StrategyEvaluationRound),
         (RESET_TIMEOUT, ResetRound),
         (NO_MAJORITY, ResetRound)])]"

text \<open>The pairs written in the display under one round class, in source order.\<close>

definition display_entries :: "Round \<Rightarrow> (Event \<times> Round) list" where
  "display_entries cls =
    concat (map snd (filter (\<lambda>(c, es). c = cls) transition_function_display))"

text \<open>
  The class attribute \<^verbatim>\<open>transition_function\<close>: the value of the display, inner displays
  first. \<^verbatim>\<open>initial_round_cls\<close> is line 428.
\<close>

definition transition_function :: "Round \<rightharpoonup> (Event \<rightharpoonup> Round)" where
  "transition_function =
    dict_display (map (\<lambda>(cls, es). (cls, dict_display es)) transition_function_display)"

definition initial_round_cls :: Round where
  "initial_round_cls = ResetRound"

text \<open>The lookup \<^verbatim>\<open>transition_function[cls].get(event)\<close>.\<close>

definition next_round_cls :: "Round \<Rightarrow> Event \<Rightarrow> Round option" where
  "next_round_cls cls event =
    (case transition_function cls of None \<Rightarrow> None | Some row \<Rightarrow> row event)"

text \<open>
  Modelled from the spec: \<^verbatim>\<open>AbciApp.process_event\<close> (the base module
  \<^verbatim>\<open>abstract_round_abci.base\<close> is not among the source files). Section 4.3: it looks up
  \<^verbatim>\<open>table[type(current_round)][event]\<close> and fails with \<^verbatim>\<open>UnknownTransitionError\<close> if no
  entry exists for that pair; on a successful lookup the target round class becomes the
  current one.
\<close>

datatype transition_error = UnknownTransitionError Round Event

definition process_event :: "Round \<Rightarrow> Event \<Rightarrow> transition_error + Round" where
  "process_event current_round_cls event =
    (case next_round_cls current_round_cls event of
       None \<Rightarrow> Inl (UnknownTransitionError current_round_cls event)
     | Some cls \<Rightarrow> Inr cls)"

text \<open>Round classes reachable from the initial one along entries of the table.\<close>

inductive reachable :: "Round \<Rightarrow> bool" where
  reachable_initial: "reachable initial_round_cls"
| reachable_step: "reachable cls \<Longrightarrow> next_round_cls cls event = Some cls' \<Longrightarrow> reachable cls'"

section \<open>Period state\<close>

text \<open>
  Python values as far as the rounds handle them: payload values, the values stored in
  the period state and decoded JSON. A dict is the list of its items (keys distinct, in
  insertion order); a payload object stored in a collection is represented by the value it
  carries.
\<close>

datatype pyval =
    PNone
  | PBool bool
  | PInt int
  | PStr string
  | PList "pyval list"
  | PDict "(string \<times> pyval) list"

datatype pyerror =
    AttributeNotSet string
  | JSONDecodeError
  | KeyError string
  | TypeError

text \<open>
  Modelled from the spec: \<^verbatim>\<open>BasePeriodState\<close> with its \<^verbatim>\<open>db\<close>, \<^verbatim>\<open>db.get_strict\<close> and
  \<^verbatim>\<open>update\<close> (defined in \<^verbatim>\<open>abstract_round_abci.base\<close>, not among the source files).
  Section 3: a snapshot is a mapping from attribute name to value; reading an attribute
  that was never set fails fast, distinct from reading one set to an empty or default
  value; an update creates a new snapshot copying all prior attributes and overwriting or
  adding the named ones.
\<close>

record PeriodState =
  db :: "string \<rightharpoonup> pyval"

definition get_strict :: "(string \<rightharpoonup> pyval) \<Rightarrow> string \<Rightarrow> pyerror + pyval" where
  "get_strict d key = (case d key of None \<Rightarrow> Inl (AttributeNotSet key) | Some v \<Rightarrow> Inr v)"

definition PeriodState_update :: "PeriodState \<Rightarrow> (string \<times> pyval) list \<Rightarrow> PeriodState" where
  "PeriodState_update s kwargs = s\<lparr>db := dict_store (db s) kwargs\<rparr>"

text \<open>The property accessors of \<^verbatim>\<open>class PeriodState\<close>, rounds.py lines 77-146.\<close>

definition most_voted_strategy :: "PeriodState \<Rightarrow> pyerror + pyval" where
  "most_voted_strategy s = get_strict (db s) ''most_voted_strategy''"

definition participant_to_votes :: "PeriodState \<Rightarrow> pyerror + pyval" where
  "participant_to_votes s = get_strict (db s) ''participant_to_votes''"

definition participant_to_strategy :: "PeriodState \<Rightarrow> pyerror + pyval" where
  "participant_to_strategy s = get_strict (db s) ''participant_to_strategy''"

definition participant_to_tx_hash :: "PeriodState \<Rightarrow> pyerror + pyval" where
  "participant_to_tx_hash s = get_strict (db s) ''participant_to_tx_hash''"

definition most_voted_keeper_address :: "PeriodState \<Rightarrow> pyerror + pyval" where
  "most_voted_keeper_address s = get_strict (db s) ''most_voted_keeper_address''"

definition safe_contract_address :: "PeriodState \<Rightarrow> pyerror + pyval" where
  "safe_contract_address s = get_strict (db s) ''safe_contract_address''"

definition multisend_contract_address :: "PeriodState \<Rightarrow> pyerror + pyval" where
  "multisend_contract_address s = get_strict (db s) ''multisend_contract_address''"

definition router_contract_address :: "PeriodState \<Rightarrow> pyerror + pyval" where
  "router_contract_address s = get_strict (db s) ''router_contract_address''"

definition participant_to_signature :: "PeriodState \<Rightarrow> pyerror + pyval" where
  "participant_to_signature s = get_strict (db s) ''participant_to_signature''"

definition most_voted_tx_hash :: "PeriodState \<Rightarrow> pyerror + pyval" where
  "most_voted_tx_hash s = get_strict (db s) ''most_voted_tx_hash''"

definition most_voted_tx_data :: "PeriodState \<Rightarrow> pyerror + pyval" where
  "most_voted_tx_data s = get_strict (db s) ''most_voted_tx_data''"

definition final_tx_hash :: "PeriodState \<Rightarrow> pyerror + pyval" where
  "final_tx_hash s = get_strict (db s) ''final_tx_hash''"

text \<open>The twelve properties of the class, each with the name it is read by.\<close>

definition PeriodState_properties :: "(string \<times> (PeriodState \<Rightarrow> pyerror + pyval)) list" where
  "PeriodState_properties =
    [(''most_voted_strategy'', most_voted_strategy),
     (''participant_to_votes'', participant_to_votes),
     (''participant_to_strategy'', participant_to_strategy),
     (''participant_to_tx_hash'', participant_to_tx_hash),
     (''most_voted_keeper_address'', most_voted_keeper_address),
     (''safe_contract_address'', safe_contract_address),
     (''multisend_contract_address'', multisend_contract_address),
     (''router_contract_address'', router_contract_address),
     (''participant_to_signature'', participant_to_signature),
     (''most_voted_tx_hash'', most_voted_tx_hash),
     (''most_voted_tx_data'', most_voted_tx_data),
     (''final_tx_hash'', final_tx_hash)]"

section \<open>Rounds\<close>

text \<open>
  A round instance as its \<^verbatim>\<open>end_block\<close> sees it. \<^verbatim>\<open>round_state\<close> is \<^verbatim>\<open>self._state\<close>. The
  other fields are the members a round inherits from the base classes of
  \<^verbatim>\<open>abstract_round_abci.base\<close> (\<^verbatim>\<open>CollectSameUntilThresholdRound\<close>,
  \<^verbatim>\<open>CollectDifferentUntilThresholdRound\<close>, \<^verbatim>\<open>OnlyKeeperSendsRound\<close>, \<^verbatim>\<open>VotingRound\<close>); that
  module is not among the source files, so what these members evaluate to on the round is
  a parameter of every statement below. \<^verbatim>\<open>nb_participants\<close> is the property of that name
  of the period state, \<^verbatim>\<open>keeper_payload\<close> is \<^verbatim>\<open>None\<close> until the keeper's submission is
  recorded.
\<close>

record round =
  round_state :: PeriodState
  nb_participants :: "PeriodState \<Rightarrow> nat"
  collection :: "(string \<times> pyval) list"
  threshold_reached :: bool
  most_voted_payload :: pyval
  collection_threshold_reached :: bool
  keeper_payload :: "pyval option"
  positive_vote_threshold_reached :: bool
  negative_vote_threshold_reached :: bool
  is_majority_possible :: "(string \<times> pyval) list \<Rightarrow> nat \<Rightarrow> bool"

text \<open>
  Modelled from the spec: \<^verbatim>\<open>OnlyKeeperSendsRound.has_keeper_sent_payload\<close> (not among the
  source files). Section 4.2: the end of the round succeeds as soon as the keeper's
  submission is present.
\<close>

definition has_keeper_sent_payload :: "round \<Rightarrow> bool" where
  "has_keeper_sent_payload r = (keeper_payload r \<noteq> None)"

text \<open>An \<^verbatim>\<open>Optional\<close> attribute read as a Python value.\<close>

fun optional_value :: "pyval option \<Rightarrow> pyval" where
  "optional_value None = PNone"
| "optional_value (Some v) = v"

text \<open>\<^verbatim>\<open>LiquidityProvisionAbstractRound\<close>, rounds.py lines 149-163.\<close>

definition period_state :: "round \<Rightarrow> PeriodState" where
  "period_state r = round_state r"

definition return_no_majority_event :: "round \<Rightarrow> PeriodState \<times> Event" where
  "return_no_majority_event r = (period_state r, NO_MAJORITY)"

text \<open>
  \<^verbatim>\<open>json.loads\<close> is the decoder of Python's standard library; \<open>decode\<close> stands for what it
  does on a text (\<open>None\<close> where it raises \<^verbatim>\<open>JSONDecodeError\<close>). It rejects an argument that
  is not a string with \<^verbatim>\<open>TypeError\<close>.
\<close>

definition json_loads :: "(string \<Rightarrow> pyval option) \<Rightarrow> pyval \<Rightarrow> pyerror + pyval" where
  "json_loads decode v =
    (case v of
       PStr text \<Rightarrow> (case decode text of None \<Rightarrow> Inl JSONDecodeError | Some j \<Rightarrow> Inr j)
     | _ \<Rightarrow> Inl TypeError)"

text \<open>
  The subscription \<^verbatim>\<open>v[key]\<close> with a string key: \<^verbatim>\<open>KeyError\<close> on a dict without the key,
  \<^verbatim>\<open>TypeError\<close> on a value that is not a dict.
\<close>

fun getitem :: "pyval \<Rightarrow> string \<Rightarrow> pyerror + pyval" where
  "getitem (PDict items) key =
    (case map_of items key of None \<Rightarrow> Inl (KeyError key) | Some v \<Rightarrow> Inr v)"
| "getitem _ key = Inl TypeError"

text \<open>The result of \<^verbatim>\<open>end_block\<close>: an exception, no decision, or a state and an event.\<close>

type_synonym end_block_result = "pyerror + (PeriodState \<times> Event) option"

text \<open>\<^verbatim>\<open>TransactionHashBaseRound.end_block\<close>, rounds.py lines 182-196.\<close>

definition TransactionHashBaseRound_end_block ::
  "(string \<Rightarrow> pyval option) \<Rightarrow> round \<Rightarrow> end_block_result" where
  "TransactionHashBaseRound_end_block decode r =
    (if threshold_reached r then
       (case json_loads decode (most_voted_payload r) of
          Inl e \<Rightarrow> Inl e
        | Inr dict_ \<Rightarrow>
            (case getitem dict_ ''tx_hash'' of
               Inl e \<Rightarrow> Inl e
             | Inr tx_hash \<Rightarrow>
                 (case getitem dict_ ''tx_data'' of
                    Inl e \<Rightarrow> Inl e
                  | Inr tx_data \<Rightarrow>
                      Inr (Some (PeriodState_update (period_state r)
                                   [(''participant_to_tx_hash'', PDict (collection r)),
                                    (''most_voted_tx_hash'', tx_hash),
                                    (''most_voted_tx_data'', tx_data)],
                                 DONE)))))
     else if \<not> is_majority_possible r (collection r) (nb_participants r (period_state r))
       then Inr (Some (return_no_majority_event r))
     else Inr None)"

text \<open>\<^verbatim>\<open>TransactionSignatureBaseRound.end_block\<close>, rounds.py lines 208-219.\<close>

definition TransactionSignatureBaseRound_end_block :: "round \<Rightarrow> end_block_result" where
  "TransactionSignatureBaseRound_end_block r =
    (if collection_threshold_reached r then
       Inr (Some (PeriodState_update (period_state r)
                    [(''participant_to_signature'', PDict (collection r))],
                  DONE))
     else if \<not> is_majority_possible r (collection r) (nb_participants r (period_state r))
       then Inr (Some (return_no_majority_event r))
     else Inr None)"

text \<open>\<^verbatim>\<open>TransactionSendBaseRound.end_block\<close>, rounds.py lines 236-242.\<close>

definition TransactionSendBaseRound_end_block :: "round \<Rightarrow> end_block_result" where
  "TransactionSendBaseRound_end_block r =
    (if has_keeper_sent_payload r then
       Inr (Some (PeriodState_update (period_state r)
                    [(''final_tx_hash'', optional_value (keeper_payload r))],
                  DONE))
     else Inr None)"

text \<open>
  \<^verbatim>\<open>TransactionValidationBaseRound\<close>, rounds.py lines 253-273: the class attribute
  \<^verbatim>\<open>exit_event\<close> and \<^verbatim>\<open>end_block\<close>.
\<close>

definition exit_event :: Event where
  "exit_event = EXIT"

definition TransactionValidationBaseRound_end_block :: "round \<Rightarrow> end_block_result" where
  "TransactionValidationBaseRound_end_block r =
    (if positive_vote_threshold_reached r then
       Inr (Some (PeriodState_update (period_state r)
                    [(''participant_to_votes'', PDict (collection r))],
                  DONE))
     else if negative_vote_threshold_reached r then
       Inr (Some (PeriodState_update (period_state r) [], exit_event))
     else if \<not> is_majority_possible r (collection r) (nb_participants r (period_state r))
       then Inr (Some (return_no_majority_event r))
     else Inr None)"

text \<open>
  \<^verbatim>\<open>StrategyEvaluationRound.end_block\<close>, rounds.py lines 291-308. \<^verbatim>\<open>StrategyType\<close> is
  imported from the payloads module, which is not among the source files: \<open>is_GO v\<close>
  stands for the test \<^verbatim>\<open>v == StrategyType.GO\<close>.
\<close>

definition StrategyEvaluationRound_end_block ::
  "(pyval \<Rightarrow> bool) \<Rightarrow> round \<Rightarrow> end_block_result" where
  "StrategyEvaluationRound_end_block is_GO r =
    (if threshold_reached r then
       (let state = PeriodState_update (period_state r)
                      [(''participant_to_strategy'', PDict (collection r)),
                       (''most_voted_strategy'', most_voted_payload r)]
        in case most_voted_strategy state of
             Inl e \<Rightarrow> Inl e
           | Inr strategy \<Rightarrow>
               (case getitem strategy ''action'' of
                  Inl e \<Rightarrow> Inl e
                | Inr action \<Rightarrow>
                    Inr (Some (state, if is_GO action then DONE else RESET_TIMEOUT))))
     else if \<not> is_majority_possible r (collection r) (nb_participants r (period_state r))
       then Inr (Some (return_no_majority_event r))
     else Inr None)"

text \<open>
  \<^verbatim>\<open>end_block\<close> by round class, along the inheritance of rounds.py lines 311-422. The
  result is \<open>None\<close> for a class that gets no \<^verbatim>\<open>end_block\<close> from this module: the imported
  \<^verbatim>\<open>ResetRound\<close> and \<^verbatim>\<open>ResetAndPauseRound\<close>, the randomness rounds (subclasses of the
  imported \<^verbatim>\<open>RandomnessOracleRound\<close>) and the select-keeper rounds (which define none).
\<close>

fun end_block ::
  "(string \<Rightarrow> pyval option) \<Rightarrow> (pyval \<Rightarrow> bool) \<Rightarrow> Round \<Rightarrow> round \<Rightarrow> end_block_result option"
where
  "end_block decode is_GO StrategyEvaluationRound r =
     Some (StrategyEvaluationRound_end_block is_GO r)"
| "end_block decode is_GO EnterPoolTransactionHashRound r =
     Some (TransactionHashBaseRound_end_block decode r)"
| "end_block decode is_GO ExitPoolTransactionHashRound r =
     Some (TransactionHashBaseRound_end_block decode r)"
| "end_block decode is_GO SwapBackTransactionHashRound r =
     Some (TransactionHashBaseRound_end_block decode r)"
| "end_block decode is_GO EnterPoolTransactionSignatureRound r =
     Some (TransactionSignatureBaseRound_end_block r)"
| "end_block decode is_GO ExitPoolTransactionSignatureRound r =
     Some (TransactionSignatureBaseRound_end_block r)"
| "end_block decode is_GO SwapBackTransactionSignatureRound r =
     Some (TransactionSignatureBaseRound_end_block r)"
| "end_block decode is_GO EnterPoolTransactionSendRound r =
     Some (TransactionSendBaseRound_end_block r)"
| "end_block decode is_GO ExitPoolTransactionSendRound r =
     Some (TransactionSendBaseRound_end_block r)"
| "end_block decode is_GO SwapBackTransactionSendRound r =
     Some (TransactionSendBaseRound_end_block r)"
| "end_block decode is_GO EnterPoolTransactionValidationRound r =
     Some (TransactionValidationBaseRound_end_block r)"
| "end_block decode is_GO ExitPoolTransactionValidationRound r =
     Some (TransactionValidationBaseRound_end_block r)"
| "end_block decode is_GO SwapBackTransactionValidationRound r =
     Some (TransactionValidationBaseRound_end_block r)"
| "end_block decode is_GO cls r = None"

text \<open>
  Modelled from the spec: the \<^verbatim>\<open>end_block\<close> of a round class that inherits it from a module
  that is not among the source files. These are the select-keeper rounds (their base
  \<^verbatim>\<open>CollectSameUntilThresholdRound\<close> is in \<^verbatim>\<open>abstract_round_abci.base\<close>), the randomness
  rounds (subclasses of \<^verbatim>\<open>RandomnessOracleRound\<close> of \<^verbatim>\<open>oracle_deployment_abci.rounds\<close>) and
  the two reset rounds (\<^verbatim>\<open>transaction_settlement_abci.rounds\<close>). Section 4.2, the common
  end-of-round algorithm: if the round's success condition holds, derive the new snapshot
  (copy the previous one, overlay the named result attributes) and return it with the
  success event; else if \<^verbatim>\<open>majority_possible\<close> is false, return the previous state with
  \<^verbatim>\<open>NO_MAJORITY\<close>; else return no decision. The spec names neither the result attributes
  nor, for a round whose base class the sources do not show, which success condition it
  has: both are parameters.
\<close>

definition inherited_end_block ::
  "bool \<Rightarrow> (string \<times> pyval) list \<Rightarrow> round \<Rightarrow> end_block_result" where
  "inherited_end_block success attributes r =
    (if success then Inr (Some (PeriodState_update (period_state r) attributes, DONE))
     else if \<not> is_majority_possible r (collection r) (nb_participants r (period_state r))
       then Inr (Some (period_state r, NO_MAJORITY))
     else Inr None)"

text \<open>
  \<^verbatim>\<open>end_block\<close> of every round class of the application: the method of rounds.py where the
  class has one, the inherited one otherwise. A select-keeper round is a
  \<^verbatim>\<open>CollectSameUntilThresholdRound\<close> (rounds.py lines 341-343, 379-381, 417-419), whose
  success condition is \<^verbatim>\<open>threshold_reached\<close>; for the other classes \<open>success cls r\<close>
  stands for the success condition. \<open>attributes cls r\<close> are the named result attributes.
\<close>

definition round_end_block ::
  "(string \<Rightarrow> pyval option) \<Rightarrow> (pyval \<Rightarrow> bool) \<Rightarrow> (Round \<Rightarrow> round \<Rightarrow> bool) \<Rightarrow>
   (Round \<Rightarrow> round \<Rightarrow> (string \<times> pyval) list) \<Rightarrow> Round \<Rightarrow> round \<Rightarrow> end_block_result" where
  "round_end_block decode is_GO success attributes cls r =
    (case end_block decode is_GO cls r of
       Some result \<Rightarrow> result
     | None \<Rightarrow>
         inherited_end_block
           (if cls \<in> {EnterPoolSelectKeeperRound, ExitPoolSelectKeeperRound,
                       SwapBackSelectKeeperRound}
            then threshold_reached r else success cls r)
           (attributes cls r) r)"

section \<open>Service registry contract\<close>

text \<open>
  contract.py lines 31-34 bind the module-level name \<^verbatim>\<open>DEPLOYED_BYTECODE_MD5_HASH\<close> four
  times in a row; the list holds the four right-hand sides in source order. A later
  binding replaces the earlier one, so the name reads as the last of them when
  \<^verbatim>\<open>verify_contract\<close> runs.
\<close>

definition DEPLOYED_BYTECODE_MD5_HASH_bindings :: "string list" where
  "DEPLOYED_BYTECODE_MD5_HASH_bindings =
    [''288a5ecfe0b685d93f174ec24f743458679a4948d6517d77957fd67b72e5982eb85f543329059eabada38428eef9d548e407b1e0d60dd83af60099ea76bf5a76'',
     ''2efb3d8756e0c16b79f15785774d02b7a7f1103c322fa000137bfda2fe4ed1b90352bd8e2f0c0be47357476332c88c8e477df8037ea35347e8275feccf58c4d9'',
     ''fa67f4a5dff3f392b506c42816bc90086422a22a64103a11aa59640f036b8f8c70facdea13f8af9f893c25a0c838a9d0b03fed4a6c77b1d36f0beefe92b9379a'',
     ''75d2a79df580ba1353211f93c479a9d6b78cc8f14e724290329e274fdcab4dc8cc04adbd8efbbce00a01af2dd6873f7e66a8c338a3d4f87a31ab0e283eef89de'']"

definition DEPLOYED_BYTECODE_MD5_HASH :: string where
  "DEPLOYED_BYTECODE_MD5_HASH = last DEPLOYED_BYTECODE_MD5_HASH_bindings"

text \<open>
  \<^verbatim>\<open>ServiceRegistryContract.verify_contract\<close>, contract.py lines 51-66. The ledger and the
  standard library are parameters: \<open>get_code_hex\<close> is
  \<^verbatim>\<open>ledger_api.api.eth.get_code(contract_address).hex()\<close>, \<open>encode_utf8\<close> is
  \<^verbatim>\<open>str.encode("utf-8")\<close> and \<open>sha512_hexdigest\<close> is \<^verbatim>\<open>hashlib.sha512(b).hexdigest()\<close>.
  The returned dict is the list of its two items.
\<close>

definition verify_contract ::
  "(string \<Rightarrow> string) \<Rightarrow> (string \<Rightarrow> 'b) \<Rightarrow> ('b \<Rightarrow> string) \<Rightarrow> string \<Rightarrow> pyval" where
  "verify_contract get_code_hex encode_utf8 sha512_hexdigest contract_address =
    (let deployed_bytecode = get_code_hex contract_address;
         sha512_hash = sha512_hexdigest (encode_utf8 deployed_bytecode);
         verified = (DEPLOYED_BYTECODE_MD5_HASH = sha512_hash)
     in PDict [(''verified'', PBool verified), (''sha512_hash'', PStr sha512_hash)])"

section \<open>Reading results, and example inputs\<close>

text \<open>The event of an \<^verbatim>\<open>end_block\<close> result, if it carries one.\<close>

fun returned_event :: "end_block_result \<Rightarrow> Event option" where
  "returned_event (Inr (Some (s, event))) = Some event"
| "returned_event _ = None"

text \<open>
  The behaviour of \<^verbatim>\<open>json.loads\<close> on the texts that the examples decode: the JSON object
  below is decoded to its dict, and \<^verbatim>\<open>0xabc\<close> (a bare hash) is not JSON. No example
  decodes any other text.
\<close>

definition sample_decode :: "string \<Rightarrow> pyval option" where
  "sample_decode text =
    (if text = ''{\"tx_hash\": \"0xabc\", \"tx_data\": \"0x00\"}''
     then Some (PDict [(''tx_hash'', PStr ''0xabc''), (''tx_data'', PStr ''0x00'')])
     else None)"

text \<open>A comparison with \<^verbatim>\<open>StrategyType.GO\<close> for the examples: the action \<^verbatim>\<open>go\<close>.\<close>

definition sample_is_GO :: "pyval \<Rightarrow> bool" where
  "sample_is_GO v = (v = PStr ''go'')"

text \<open>
  A round of four participants in which nothing has been collected: no threshold is
  reached and a majority is still possible. The examples below change single fields.
\<close>

definition idle_round :: round where
  "idle_round =
    \<lparr>round_state = \<lparr>db = [''safe_contract_address'' \<mapsto> PStr ''0x5afe'']\<rparr>,
     nb_participants = (\<lambda>s. 4),
     collection = [],
     threshold_reached = False,
     most_voted_payload = PNone,
     collection_threshold_reached = False,
     keeper_payload = None,
     positive_vote_threshold_reached = False,
     negative_vote_threshold_reached = False,
     is_majority_possible = (\<lambda>votes n. True)\<rparr>"

text \<open>
  The scenario of section 8 of the spec: three participants submit the hash \<^verbatim>\<open>0xabc\<close>, one
  submits \<^verbatim>\<open>0xdef\<close>, and the threshold of three is reached.
\<close>

definition bare_hash_round :: round where
  "bare_hash_round =
    idle_round
      \<lparr>collection := [(''agent_0'', PStr ''0xabc''), (''agent_1'', PStr ''0xabc''),
                      (''agent_2'', PStr ''0xabc''), (''agent_3'', PStr ''0xdef'')],
       threshold_reached := True,
       most_voted_payload := PStr ''0xabc''\<rparr>"

text \<open>Three of four participants submit the same JSON-encoded pair of hash and data.\<close>

definition json_hash_round :: round where
  "json_hash_round =
    idle_round
      \<lparr>collection :=
         [(''agent_0'', PStr ''{\"tx_hash\": \"0xabc\", \"tx_data\": \"0x00\"}''),
          (''agent_1'', PStr ''{\"tx_hash\": \"0xabc\", \"tx_data\": \"0x00\"}''),
          (''agent_2'', PStr ''{\"tx_hash\": \"0xabc\", \"tx_data\": \"0x00\"}'')],
       threshold_reached := True,
       most_voted_payload := PStr ''{\"tx_hash\": \"0xabc\", \"tx_data\": \"0x00\"}''\<rparr>"

text \<open>Three of four participants agree on a strategy whose action is to wait.\<close>

definition wait_strategy_round :: round where
  "wait_strategy_round =
    idle_round
      \<lparr>collection := [(''agent_0'', PDict [(''action'', PStr ''wait'')]),
                      (''agent_1'', PDict [(''action'', PStr ''wait'')]),
                      (''agent_2'', PDict [(''action'', PStr ''wait'')])],
       threshold_reached := True,
       most_voted_payload := PDict [(''action'', PStr ''wait'')]\<rparr>"

text \<open>Three of four participants vote against the transaction.\<close>

definition negative_vote_round :: round where
  "negative_vote_round =
    idle_round
      \<lparr>collection := [(''agent_0'', PBool False), (''agent_1'', PBool False),
                      (''agent_2'', PBool False)],
       negative_vote_threshold_reached := True\<rparr>"

section \<open>Properties\<close>

subsection \<open>Evaluating the table\<close>

lemma dict_store_eq_override: "dict_store m kvs = m ++ map_of (rev kvs)"
proof (induction kvs arbitrary: m)
  case Nil
  show ?case by simp
next
  case (Cons kv kvs)
  obtain k v where kv: "kv = (k, v)" by (cases kv)
  have "dict_store m (kv # kvs) = dict_store (m(k \<mapsto> v)) kvs"
    by (simp add: kv)
  also have "\<dots> = (m(k \<mapsto> v)) ++ map_of (rev kvs)"
    by (rule Cons.IH)
  also have "\<dots> = m ++ map_of (rev (kv # kvs))"
    by (rule ext) (simp add: kv map_add_def split: option.splits)
  finally show ?case .
qed

lemma dict_display_last_wins: "dict_display kvs = map_of (rev kvs)"
  by (simp add: dict_display_def dict_store_eq_override)

lemmas table_defs =
  next_round_cls_def transition_function_def transition_function_display_def dict_display_def

lemmas end_block_defs =
  TransactionHashBaseRound_end_block_def TransactionSignatureBaseRound_end_block_def
  TransactionSendBaseRound_end_block_def TransactionValidationBaseRound_end_block_def
  StrategyEvaluationRound_end_block_def return_no_majority_event_def

lemmas accessor_defs =
  most_voted_strategy_def participant_to_votes_def participant_to_strategy_def
  participant_to_tx_hash_def most_voted_keeper_address_def safe_contract_address_def
  multisend_contract_address_def router_contract_address_def participant_to_signature_def
  most_voted_tx_hash_def most_voted_tx_data_def final_tx_hash_def

lemma PeriodState_update_Nil: "PeriodState_update s [] = s"
  by (simp add: PeriodState_update_def)

lemma db_PeriodState_update: "db (PeriodState_update s kwargs) = db s ++ map_of (rev kwargs)"
  by (simp add: PeriodState_update_def dict_store_eq_override)

subsection \<open>Duplicate keys in the table\<close>

text \<open>
  C3. In the display of the transition table, the entries of
  \<^verbatim>\<open>EnterPoolTransactionValidationRound\<close>, \<^verbatim>\<open>ExitPoolTransactionValidationRound\<close> and
  \<^verbatim>\<open>SwapBackTransactionValidationRound\<close> each write the key \<^verbatim>\<open>Event.ROUND_TIMEOUT\<close> twice,
  and the table that results sends \<^verbatim>\<open>ROUND_TIMEOUT\<close> from each of the three to its
  randomness round (the pair written last), not to \<^verbatim>\<open>ResetRound\<close>.
\<close>

theorem validation_round_timeout_last_write_wins:
  "count_list (map fst (display_entries EnterPoolTransactionValidationRound)) ROUND_TIMEOUT = 2
   \<and> count_list (map fst (display_entries ExitPoolTransactionValidationRound)) ROUND_TIMEOUT = 2
   \<and> count_list (map fst (display_entries SwapBackTransactionValidationRound)) ROUND_TIMEOUT = 2
   \<and> next_round_cls EnterPoolTransactionValidationRound ROUND_TIMEOUT
        = Some EnterPoolRandomnessRound
   \<and> next_round_cls ExitPoolTransactionValidationRound ROUND_TIMEOUT
        = Some ExitPoolRandomnessRound
   \<and> next_round_cls SwapBackTransactionValidationRound ROUND_TIMEOUT
        = Some SwapBackRandomnessRound
   \<and> next_round_cls EnterPoolTransactionValidationRound ROUND_TIMEOUT \<noteq> Some ResetRound
   \<and> next_round_cls ExitPoolTransactionValidationRound ROUND_TIMEOUT \<noteq> Some ResetRound
   \<and> next_round_cls SwapBackTransactionValidationRound ROUND_TIMEOUT \<noteq> Some ResetRound"
  by (simp add: display_entries_def table_defs)


subsection \<open>Events a round produces and the entries of the table\<close>

lemma no_majority_entry_except_ResetRound:
  "cls \<noteq> ResetRound \<Longrightarrow> next_round_cls cls NO_MAJORITY = Some ResetRound"
  by (cases cls) (simp_all add: table_defs)

text \<open>
  Apart from \<^verbatim>\<open>RESET_TIMEOUT\<close> out of the strategy evaluation and \<^verbatim>\<open>EXIT\<close> out of a
  validation round, every event that an \<^verbatim>\<open>end_block\<close> of this module returns has an entry.
\<close>

lemma produced_events_with_entries:
  "end_block decode is_GO cls r = Some (Inr (Some (s, event))) \<Longrightarrow>
   \<not> (cls = StrategyEvaluationRound \<and> event = RESET_TIMEOUT) \<Longrightarrow> event \<noteq> EXIT \<Longrightarrow>
   next_round_cls cls event \<noteq> None"
  by (cases cls)
     (auto simp: end_block_defs exit_event_def Let_def table_defs
        split: if_splits sum.splits)

text \<open>
  C1. The claim is that the table has an entry for every event that the \<^verbatim>\<open>end_block\<close> of a
  round can return. The code falls short of it in two places. In a strategy evaluation
  round whose agreed strategy has an action other than \<^verbatim>\<open>GO\<close>, \<^verbatim>\<open>end_block\<close> returns
  \<^verbatim>\<open>RESET_TIMEOUT\<close>, and \<^verbatim>\<open>process_event\<close> finds no entry for it under
  \<^verbatim>\<open>StrategyEvaluationRound\<close>. In a validation round whose negative-vote threshold is
  reached, \<^verbatim>\<open>end_block\<close> returns \<^verbatim>\<open>EXIT\<close>, and none of the three validation rounds of the
  table has an entry for it.
\<close>

theorem produced_events_without_table_entry:
  "end_block sample_decode sample_is_GO StrategyEvaluationRound wait_strategy_round
     = Some (StrategyEvaluationRound_end_block sample_is_GO wait_strategy_round)
   \<and> returned_event (StrategyEvaluationRound_end_block sample_is_GO wait_strategy_round)
     = Some RESET_TIMEOUT
   \<and> process_event StrategyEvaluationRound RESET_TIMEOUT
     = Inl (UnknownTransitionError StrategyEvaluationRound RESET_TIMEOUT)
   \<and> end_block sample_decode sample_is_GO EnterPoolTransactionValidationRound negative_vote_round
     = Some (TransactionValidationBaseRound_end_block negative_vote_round)
   \<and> end_block sample_decode sample_is_GO ExitPoolTransactionValidationRound negative_vote_round
     = Some (TransactionValidationBaseRound_end_block negative_vote_round)
   \<and> end_block sample_decode sample_is_GO SwapBackTransactionValidationRound negative_vote_round
     = Some (TransactionValidationBaseRound_end_block negative_vote_round)
   \<and> returned_event (TransactionValidationBaseRound_end_block negative_vote_round) = Some EXIT
   \<and> process_event EnterPoolTransactionValidationRound EXIT
     = Inl (UnknownTransitionError EnterPoolTransactionValidationRound EXIT)
   \<and> process_event ExitPoolTransactionValidationRound EXIT
     = Inl (UnknownTransitionError ExitPoolTransactionValidationRound EXIT)
   \<and> process_event SwapBackTransactionValidationRound EXIT
     = Inl (UnknownTransitionError SwapBackTransactionValidationRound EXIT)"
  by (simp add: end_block_defs exit_event_def Let_def table_defs process_event_def
      wait_strategy_round_def negative_vote_round_def idle_round_def sample_is_GO_def
      accessor_defs get_strict_def PeriodState_update_def)

text \<open>
  C2. The claim is that every round class reachable from the initial one has an entry for
  its timeout event and one for \<^verbatim>\<open>NO_MAJORITY\<close>. The initial round class \<^verbatim>\<open>ResetRound\<close> is
  reachable, and its entry of the table holds \<^verbatim>\<open>DONE\<close> alone: no \<^verbatim>\<open>NO_MAJORITY\<close>, no
  \<^verbatim>\<open>ROUND_TIMEOUT\<close>, no \<^verbatim>\<open>RESET_TIMEOUT\<close>.
\<close>

theorem ResetRound_has_only_DONE_entry:
  "reachable ResetRound
   \<and> transition_function ResetRound = Some [DONE \<mapsto> StrategyEvaluationRound]
   \<and> next_round_cls ResetRound NO_MAJORITY = None
   \<and> next_round_cls ResetRound ROUND_TIMEOUT = None
   \<and> next_round_cls ResetRound RESET_TIMEOUT = None"
proof -
  have "reachable ResetRound"
    using reachable_initial by (simp add: initial_round_cls_def)
  then show ?thesis by (simp add: table_defs)
qed

subsection \<open>Transaction hash rounds\<close>

lemma getitem_Inr_iff:
  "getitem v key = Inr x \<longleftrightarrow> (\<exists>items. v = PDict items \<and> map_of items key = Some x)"
  by (cases v) (auto split: option.splits)

lemma json_loads_Inr_iff:
  "json_loads decode v = Inr j \<longleftrightarrow> (\<exists>text. v = PStr text \<and> decode text = Some j)"
  by (cases v) (auto simp: json_loads_def split: option.splits)

text \<open>
  Once the threshold is reached, the round ends with \<^verbatim>\<open>DONE\<close> exactly when the most voted
  payload is a text that decodes to a dict with both keys; otherwise \<^verbatim>\<open>end_block\<close> raises.
\<close>

lemma TransactionHashBaseRound_DONE_iff:
  assumes "threshold_reached r"
  shows "(\<exists>s. TransactionHashBaseRound_end_block decode r = Inr (Some (s, DONE)))
   \<longleftrightarrow> (\<exists>text items tx_hash tx_data. most_voted_payload r = PStr text
        \<and> decode text = Some (PDict items)
        \<and> map_of items ''tx_hash'' = Some tx_hash \<and> map_of items ''tx_data'' = Some tx_data)"
proof -
  have "(\<exists>s. TransactionHashBaseRound_end_block decode r = Inr (Some (s, DONE)))
     \<longleftrightarrow> (\<exists>d tx_hash tx_data. json_loads decode (most_voted_payload r) = Inr d
          \<and> getitem d ''tx_hash'' = Inr tx_hash \<and> getitem d ''tx_data'' = Inr tx_data)"
    using assms by (auto simp: TransactionHashBaseRound_end_block_def split: sum.splits)
  then show ?thesis
    by (auto simp: getitem_Inr_iff json_loads_Inr_iff)
qed

text \<open>
  C4, as amended. The three transaction hash rounds run
  \<^verbatim>\<open>TransactionHashBaseRound.end_block\<close>. Whenever the threshold is reached and the most
  voted payload is a text that JSON-decodes to a dict with the keys \<^verbatim>\<open>tx_hash\<close> and
  \<^verbatim>\<open>tx_data\<close>, it returns \<^verbatim>\<open>DONE\<close> with the period state updated so that
  \<^verbatim>\<open>participant_to_tx_hash\<close> is the whole collection and \<^verbatim>\<open>most_voted_tx_hash\<close> and
  \<^verbatim>\<open>most_voted_tx_data\<close> are the values under these two keys. When the threshold is not
  reached and a majority is still possible, it returns no decision.
\<close>

theorem TransactionHashBaseRound_end_block_decoded:
  "end_block decode is_GO EnterPoolTransactionHashRound r
     = Some (TransactionHashBaseRound_end_block decode r)
   \<and> end_block decode is_GO ExitPoolTransactionHashRound r
     = Some (TransactionHashBaseRound_end_block decode r)
   \<and> end_block decode is_GO SwapBackTransactionHashRound r
     = Some (TransactionHashBaseRound_end_block decode r)
   \<and> (threshold_reached r \<and> most_voted_payload r = PStr text
      \<and> decode text = Some (PDict items)
      \<and> map_of items ''tx_hash'' = Some tx_hash \<and> map_of items ''tx_data'' = Some tx_data
    \<longrightarrow> TransactionHashBaseRound_end_block decode r
          = Inr (Some (PeriodState_update (period_state r)
                         [(''participant_to_tx_hash'', PDict (collection r)),
                          (''most_voted_tx_hash'', tx_hash),
                          (''most_voted_tx_data'', tx_data)],
                       DONE))
        \<and> participant_to_tx_hash
            (PeriodState_update (period_state r)
               [(''participant_to_tx_hash'', PDict (collection r)),
                (''most_voted_tx_hash'', tx_hash),
                (''most_voted_tx_data'', tx_data)]) = Inr (PDict (collection r))
        \<and> most_voted_tx_hash
            (PeriodState_update (period_state r)
               [(''participant_to_tx_hash'', PDict (collection r)),
                (''most_voted_tx_hash'', tx_hash),
                (''most_voted_tx_data'', tx_data)]) = Inr tx_hash
        \<and> most_voted_tx_data
            (PeriodState_update (period_state r)
               [(''participant_to_tx_hash'', PDict (collection r)),
                (''most_voted_tx_hash'', tx_hash),
                (''most_voted_tx_data'', tx_data)]) = Inr tx_data)
   \<and> (\<not> threshold_reached r
        \<and> is_majority_possible r (collection r) (nb_participants r (period_state r))
      \<longrightarrow> TransactionHashBaseRound_end_block decode r = Inr None)"
  by (simp add: TransactionHashBaseRound_end_block_def json_loads_def accessor_defs
      get_strict_def PeriodState_update_def)

text \<open>
  C4 as stated fails: with the threshold reached on the bare hash \<^verbatim>\<open>0xabc\<close>, which is not
  JSON, \<^verbatim>\<open>end_block\<close> raises \<^verbatim>\<open>JSONDecodeError\<close> instead of returning \<^verbatim>\<open>DONE\<close>.
\<close>

theorem TransactionHashBaseRound_bare_hash_raises:
  "threshold_reached bare_hash_round
   \<and> most_voted_payload bare_hash_round = PStr ''0xabc''
   \<and> end_block sample_decode sample_is_GO EnterPoolTransactionHashRound bare_hash_round
     = Some (Inl JSONDecodeError)"
  by (simp add: TransactionHashBaseRound_end_block_def bare_hash_round_def idle_round_def
      sample_decode_def json_loads_def)

text \<open>
  The amended C4 at two rounds: one that agrees on a JSON-encoded pair, and the idle one.
\<close>

theorem TransactionHashBaseRound_end_block_decoded_witness:
  "TransactionHashBaseRound_end_block sample_decode json_hash_round
     = Inr (Some (PeriodState_update (period_state json_hash_round)
                    [(''participant_to_tx_hash'', PDict (collection json_hash_round)),
                     (''most_voted_tx_hash'', PStr ''0xabc''),
                     (''most_voted_tx_data'', PStr ''0x00'')],
                  DONE))
   \<and> TransactionHashBaseRound_end_block sample_decode idle_round = Inr None"
proof -
  have ok: "threshold_reached json_hash_round
      \<and> most_voted_payload json_hash_round
          = PStr ''{\"tx_hash\": \"0xabc\", \"tx_data\": \"0x00\"}''
      \<and> sample_decode ''{\"tx_hash\": \"0xabc\", \"tx_data\": \"0x00\"}''
          = Some (PDict [(''tx_hash'', PStr ''0xabc''), (''tx_data'', PStr ''0x00'')])
      \<and> map_of [(''tx_hash'', PStr ''0xabc''), (''tx_data'', PStr ''0x00'')] ''tx_hash''
          = Some (PStr ''0xabc'')
      \<and> map_of [(''tx_hash'', PStr ''0xabc''), (''tx_data'', PStr ''0x00'')] ''tx_data''
          = Some (PStr ''0x00'')"
    by (simp add: json_hash_round_def idle_round_def sample_decode_def)
  have idle: "\<not> threshold_reached idle_round
      \<and> is_majority_possible idle_round (collection idle_round)
            (nb_participants idle_round (period_state idle_round))"
    by (simp add: idle_round_def)
  from TransactionHashBaseRound_end_block_decoded
        [of sample_decode _ json_hash_round
          "''{\"tx_hash\": \"0xabc\", \"tx_data\": \"0x00\"}''"
          "[(''tx_hash'', PStr ''0xabc''), (''tx_data'', PStr ''0x00'')]"
          "PStr ''0xabc''" "PStr ''0x00''"]
      TransactionHashBaseRound_end_block_decoded [of sample_decode _ idle_round] ok idle
  show ?thesis by blast
qed

subsection \<open>Transaction validation rounds\<close>

text \<open>
  C5. \<^verbatim>\<open>TransactionValidationBaseRound.end_block\<close> returns \<^verbatim>\<open>DONE\<close> with a state that
  records \<^verbatim>\<open>participant_to_votes\<close> when the positive-vote threshold is reached (whatever
  the negative votes: that check comes first); the exit event \<^verbatim>\<open>EXIT\<close> when only the
  negative-vote threshold is reached; \<^verbatim>\<open>NO_MAJORITY\<close> when neither is reached and a
  majority is no longer possible; and no decision otherwise.
\<close>

theorem TransactionValidationBaseRound_end_block_cases:
  "(positive_vote_threshold_reached r
      \<longrightarrow> TransactionValidationBaseRound_end_block r
            = Inr (Some (PeriodState_update (period_state r)
                           [(''participant_to_votes'', PDict (collection r))],
                         DONE))
          \<and> participant_to_votes
              (PeriodState_update (period_state r)
                 [(''participant_to_votes'', PDict (collection r))])
            = Inr (PDict (collection r)))
   \<and> (\<not> positive_vote_threshold_reached r \<and> negative_vote_threshold_reached r
      \<longrightarrow> TransactionValidationBaseRound_end_block r
            = Inr (Some (PeriodState_update (period_state r) [], EXIT)))
   \<and> (\<not> positive_vote_threshold_reached r \<and> \<not> negative_vote_threshold_reached r
        \<and> \<not> is_majority_possible r (collection r) (nb_participants r (period_state r))
      \<longrightarrow> TransactionValidationBaseRound_end_block r = Inr (Some (period_state r, NO_MAJORITY)))
   \<and> (\<not> positive_vote_threshold_reached r \<and> \<not> negative_vote_threshold_reached r
        \<and> is_majority_possible r (collection r) (nb_participants r (period_state r))
      \<longrightarrow> TransactionValidationBaseRound_end_block r = Inr None)"
  by (simp add: TransactionValidationBaseRound_end_block_def return_no_majority_event_def
      exit_event_def participant_to_votes_def get_strict_def PeriodState_update_def)

text \<open>
  The four cases of C5 at four rounds: both thresholds reached, the negative one alone,
  no majority possible, and the idle round.
\<close>

theorem TransactionValidationBaseRound_end_block_cases_witness:
  "TransactionValidationBaseRound_end_block
      (idle_round\<lparr>positive_vote_threshold_reached := True,
                  negative_vote_threshold_reached := True\<rparr>)
     = Inr (Some (PeriodState_update (period_state idle_round)
                    [(''participant_to_votes'', PDict [])], DONE))
   \<and> TransactionValidationBaseRound_end_block negative_vote_round
     = Inr (Some (PeriodState_update (period_state idle_round) [], EXIT))
   \<and> TransactionValidationBaseRound_end_block
      (idle_round\<lparr>is_majority_possible := (\<lambda>votes n. False)\<rparr>)
     = Inr (Some (period_state idle_round, NO_MAJORITY))
   \<and> TransactionValidationBaseRound_end_block idle_round = Inr None"
  using TransactionValidationBaseRound_end_block_cases
      [of "idle_round\<lparr>positive_vote_threshold_reached := True,
                       negative_vote_threshold_reached := True\<rparr>"]
    TransactionValidationBaseRound_end_block_cases [of negative_vote_round]
    TransactionValidationBaseRound_end_block_cases
      [of "idle_round\<lparr>is_majority_possible := (\<lambda>votes n. False)\<rparr>"]
    TransactionValidationBaseRound_end_block_cases [of idle_round]
  by (simp add: idle_round_def negative_vote_round_def period_state_def)

subsection \<open>Transaction send rounds\<close>

text \<open>
  C6. \<^verbatim>\<open>TransactionSendBaseRound.end_block\<close> returns no decision as long as the keeper's
  payload is not recorded; once it is, it returns \<^verbatim>\<open>DONE\<close> with a state whose
  \<^verbatim>\<open>final_tx_hash\<close> is that payload; and it never returns \<^verbatim>\<open>NO_MAJORITY\<close>, whatever
  \<^verbatim>\<open>is_majority_possible\<close> would say.
\<close>

theorem TransactionSendBaseRound_end_block_keeper:
  "(keeper_payload r = None \<longrightarrow> TransactionSendBaseRound_end_block r = Inr None)
   \<and> (keeper_payload r = Some v
      \<longrightarrow> TransactionSendBaseRound_end_block r
            = Inr (Some (PeriodState_update (period_state r) [(''final_tx_hash'', v)], DONE))
          \<and> final_tx_hash (PeriodState_update (period_state r) [(''final_tx_hash'', v)]) = Inr v)
   \<and> returned_event (TransactionSendBaseRound_end_block r) \<noteq> Some NO_MAJORITY"
  by (simp add: TransactionSendBaseRound_end_block_def has_keeper_sent_payload_def
      final_tx_hash_def get_strict_def PeriodState_update_def)

text \<open>
  C6 at a round without the keeper's payload in which no majority is possible, and at a
  round that holds the keeper's payload.
\<close>

theorem TransactionSendBaseRound_end_block_keeper_witness:
  "TransactionSendBaseRound_end_block (idle_round\<lparr>is_majority_possible := (\<lambda>votes n. False)\<rparr>)
     = Inr None
   \<and> TransactionSendBaseRound_end_block (idle_round\<lparr>keeper_payload := Some (PStr ''0xf1a1'')\<rparr>)
     = Inr (Some (PeriodState_update (period_state idle_round)
                    [(''final_tx_hash'', PStr ''0xf1a1'')], DONE))
   \<and> final_tx_hash (PeriodState_update (period_state idle_round)
                      [(''final_tx_hash'', PStr ''0xf1a1'')]) = Inr (PStr ''0xf1a1'')"
  using TransactionSendBaseRound_end_block_keeper
      [of "idle_round\<lparr>is_majority_possible := (\<lambda>votes n. False)\<rparr>"]
    TransactionSendBaseRound_end_block_keeper
      [of "idle_round\<lparr>keeper_payload := Some (PStr ''0xf1a1'')\<rparr>" "PStr ''0xf1a1''"]
  by (simp add: idle_round_def period_state_def)

subsection \<open>The no-majority event\<close>

lemma end_block_no_majority:
  "end_block decode is_GO cls r = Some (Inr (Some (s, NO_MAJORITY))) \<Longrightarrow> s = period_state r"
  by (cases cls)
     (auto simp: end_block_defs exit_event_def Let_def split: if_splits sum.splits)

lemma inherited_end_block_no_majority:
  "inherited_end_block success attributes r = Inr (Some (s, NO_MAJORITY)) \<Longrightarrow> s = period_state r"
  by (auto simp: inherited_end_block_def split: if_splits)

text \<open>Which classes run a method of rounds.py, and which the inherited one.\<close>

lemma end_block_None_iff:
  "end_block decode is_GO cls r = None \<longleftrightarrow>
   cls \<in> {ResetRound, ResetAndPauseRound,
           EnterPoolRandomnessRound, ExitPoolRandomnessRound, SwapBackRandomnessRound,
           EnterPoolSelectKeeperRound, ExitPoolSelectKeeperRound, SwapBackSelectKeeperRound}"
  by (cases cls) simp_all

text \<open>
  C7. Whenever the \<^verbatim>\<open>end_block\<close> of a round returns \<^verbatim>\<open>NO_MAJORITY\<close>, the state it returns
  is the period state the round started with, unchanged. This holds for every round class
  of the application: for the thirteen classes that run an \<^verbatim>\<open>end_block\<close> of rounds.py, and
  for the select-keeper, randomness and reset rounds, which run the inherited one.
\<close>

theorem no_majority_keeps_period_state:
  "round_end_block decode is_GO success attributes cls r = Inr (Some (s, NO_MAJORITY))
   \<Longrightarrow> s = period_state r"
proof (cases "end_block decode is_GO cls r")
  case None
  assume "round_end_block decode is_GO success attributes cls r = Inr (Some (s, NO_MAJORITY))"
  with None show ?thesis
    by (auto simp: round_end_block_def dest: inherited_end_block_no_majority)
next
  case (Some result)
  assume "round_end_block decode is_GO success attributes cls r = Inr (Some (s, NO_MAJORITY))"
  with Some have "end_block decode is_GO cls r = Some (Inr (Some (s, NO_MAJORITY)))"
    by (simp add: round_end_block_def)
  then show ?thesis by (rule end_block_no_majority)
qed

text \<open>
  C7 at three rounds in which no majority is possible any more: a signature round (a
  method of rounds.py), a select-keeper round and a randomness round (the inherited one).
\<close>

theorem no_majority_keeps_period_state_witness:
  "round_end_block sample_decode sample_is_GO (\<lambda>cls r. False) (\<lambda>cls r. [])
      ExitPoolTransactionSignatureRound
      (idle_round\<lparr>is_majority_possible := (\<lambda>votes n. False)\<rparr>)
     = Inr (Some (round_state idle_round, NO_MAJORITY))
   \<and> round_end_block sample_decode sample_is_GO (\<lambda>cls r. False) (\<lambda>cls r. [])
      EnterPoolSelectKeeperRound
      (idle_round\<lparr>is_majority_possible := (\<lambda>votes n. False)\<rparr>)
     = Inr (Some (round_state idle_round, NO_MAJORITY))
   \<and> round_end_block sample_decode sample_is_GO (\<lambda>cls r. False) (\<lambda>cls r. [])
      SwapBackRandomnessRound
      (idle_round\<lparr>is_majority_possible := (\<lambda>votes n. False)\<rparr>)
     = Inr (Some (round_state idle_round, NO_MAJORITY))
   \<and> round_state idle_round
     = period_state (idle_round\<lparr>is_majority_possible := (\<lambda>votes n. False)\<rparr>)"
proof -
  have run: "round_end_block sample_decode sample_is_GO (\<lambda>cls r. False) (\<lambda>cls r. [])
      ExitPoolTransactionSignatureRound
      (idle_round\<lparr>is_majority_possible := (\<lambda>votes n. False)\<rparr>)
     = Inr (Some (round_state idle_round, NO_MAJORITY))"
    and keeper: "round_end_block sample_decode sample_is_GO (\<lambda>cls r. False) (\<lambda>cls r. [])
      EnterPoolSelectKeeperRound
      (idle_round\<lparr>is_majority_possible := (\<lambda>votes n. False)\<rparr>)
     = Inr (Some (round_state idle_round, NO_MAJORITY))"
    and randomness: "round_end_block sample_decode sample_is_GO (\<lambda>cls r. False) (\<lambda>cls r. [])
      SwapBackRandomnessRound
      (idle_round\<lparr>is_majority_possible := (\<lambda>votes n. False)\<rparr>)
     = Inr (Some (round_state idle_round, NO_MAJORITY))"
    by (simp_all add: round_end_block_def inherited_end_block_def end_block_defs
        idle_round_def period_state_def)
  from no_majority_keeps_period_state [OF run] no_majority_keeps_period_state [OF keeper]
    run keeper randomness
  show ?thesis by simp
qed

subsection \<open>Bytecode verification\<close>

text \<open>
  C8. In the dict that \<^verbatim>\<open>verify_contract\<close> returns, \<^verbatim>\<open>verified\<close> is true if and only if the
  SHA-512 hex digest of the UTF-8 encoding of the deployed bytecode's hex string equals
  \<^verbatim>\<open>DEPLOYED_BYTECODE_MD5_HASH\<close>, and \<^verbatim>\<open>sha512_hash\<close> is that digest.
\<close>

theorem verify_contract_verified_iff:
  "getitem (verify_contract get_code_hex encode_utf8 sha512_hexdigest contract_address) ''verified''
     = Inr (PBool (sha512_hexdigest (encode_utf8 (get_code_hex contract_address))
                    = DEPLOYED_BYTECODE_MD5_HASH))
   \<and> getitem (verify_contract get_code_hex encode_utf8 sha512_hexdigest contract_address)
        ''sha512_hash''
     = Inr (PStr (sha512_hexdigest (encode_utf8 (get_code_hex contract_address))))"
  by (auto simp: verify_contract_def Let_def)

text \<open>
  C9. Of the four bindings of \<^verbatim>\<open>DEPLOYED_BYTECODE_MD5_HASH\<close> only the last one, which
  begins with \<^verbatim>\<open>75d2a79d\<close>, is in effect in \<^verbatim>\<open>verify_contract\<close>: \<^verbatim>\<open>verified\<close> is the
  comparison of the digest with the fourth constant, so it is true for a deployed
  bytecode whose digest is the fourth constant and false for one whose digest is one of
  the first three.
\<close>

theorem verify_contract_rejects_earlier_bindings:
  "DEPLOYED_BYTECODE_MD5_HASH = DEPLOYED_BYTECODE_MD5_HASH_bindings ! 3
   \<and> length DEPLOYED_BYTECODE_MD5_HASH_bindings = 4
   \<and> take 8 DEPLOYED_BYTECODE_MD5_HASH = ''75d2a79d''
   \<and> getitem (verify_contract get_code_hex encode_utf8 sha512_hexdigest contract_address)
        ''verified''
     = Inr (PBool (sha512_hexdigest (encode_utf8 (get_code_hex contract_address))
                    = DEPLOYED_BYTECODE_MD5_HASH_bindings ! 3))
   \<and> (sha512_hexdigest (encode_utf8 (get_code_hex contract_address))
          = DEPLOYED_BYTECODE_MD5_HASH_bindings ! 3
      \<longrightarrow> getitem (verify_contract get_code_hex encode_utf8 sha512_hexdigest contract_address)
            ''verified'' = Inr (PBool True))
   \<and> (sha512_hexdigest (encode_utf8 (get_code_hex contract_address))
          \<in> set (butlast DEPLOYED_BYTECODE_MD5_HASH_bindings)
      \<longrightarrow> getitem (verify_contract get_code_hex encode_utf8 sha512_hexdigest contract_address)
            ''verified'' = Inr (PBool False))"
  by (auto simp: verify_contract_def Let_def DEPLOYED_BYTECODE_MD5_HASH_def
      DEPLOYED_BYTECODE_MD5_HASH_bindings_def)

text \<open>
  C9 at a ledger and digest functions that yield the first, the third and the fourth of
  the four constants.
\<close>

theorem verify_contract_rejects_earlier_bindings_witness:
  "getitem (verify_contract (\<lambda>address. ''0x6080'') (\<lambda>text. text)
              (\<lambda>bytes. DEPLOYED_BYTECODE_MD5_HASH_bindings ! 0) ''0x48b6'')
      ''verified'' = Inr (PBool False)
   \<and> getitem (verify_contract (\<lambda>address. ''0x6080'') (\<lambda>text. text)
              (\<lambda>bytes. DEPLOYED_BYTECODE_MD5_HASH_bindings ! 2) ''0x48b6'')
      ''verified'' = Inr (PBool False)
   \<and> getitem (verify_contract (\<lambda>address. ''0x6080'') (\<lambda>text. text)
              (\<lambda>bytes. DEPLOYED_BYTECODE_MD5_HASH_bindings ! 3) ''0x48b6'')
      ''verified'' = Inr (PBool True)"
proof -
  have first: "DEPLOYED_BYTECODE_MD5_HASH_bindings ! 0
      \<in> set (butlast DEPLOYED_BYTECODE_MD5_HASH_bindings)"
    and third: "DEPLOYED_BYTECODE_MD5_HASH_bindings ! 2
      \<in> set (butlast DEPLOYED_BYTECODE_MD5_HASH_bindings)"
    by (simp_all add: DEPLOYED_BYTECODE_MD5_HASH_bindings_def)
  have a: "getitem (verify_contract (\<lambda>address. ''0x6080'') (\<lambda>text. text)
              (\<lambda>bytes. DEPLOYED_BYTECODE_MD5_HASH_bindings ! 0) ''0x48b6'')
      ''verified'' = Inr (PBool False)"
    using verify_contract_rejects_earlier_bindings
      [of "\<lambda>address. ''0x6080''" "\<lambda>text. text"
        "\<lambda>bytes. DEPLOYED_BYTECODE_MD5_HASH_bindings ! 0" "''0x48b6''"] first
    by blast
  have b: "getitem (verify_contract (\<lambda>address. ''0x6080'') (\<lambda>text. text)
              (\<lambda>bytes. DEPLOYED_BYTECODE_MD5_HASH_bindings ! 2) ''0x48b6'')
      ''verified'' = Inr (PBool False)"
    using verify_contract_rejects_earlier_bindings
      [of "\<lambda>address. ''0x6080''" "\<lambda>text. text"
        "\<lambda>bytes. DEPLOYED_BYTECODE_MD5_HASH_bindings ! 2" "''0x48b6''"] third
    by blast
  have c: "getitem (verify_contract (\<lambda>address. ''0x6080'') (\<lambda>text. text)
              (\<lambda>bytes. DEPLOYED_BYTECODE_MD5_HASH_bindings ! 3) ''0x48b6'')
      ''verified'' = Inr (PBool True)"
    using verify_contract_rejects_earlier_bindings
      [of "\<lambda>address. ''0x6080''" "\<lambda>text. text"
        "\<lambda>bytes. DEPLOYED_BYTECODE_MD5_HASH_bindings ! 3" "''0x48b6''"]
    by blast
  from a b c show ?thesis by blast
qed

subsection \<open>Accessors of the period state\<close>

lemma PeriodState_properties_names:
  "map fst PeriodState_properties =
   [''most_voted_strategy'', ''participant_to_votes'', ''participant_to_strategy'',
    ''participant_to_tx_hash'', ''most_voted_keeper_address'', ''safe_contract_address'',
    ''multisend_contract_address'', ''router_contract_address'', ''participant_to_signature'',
    ''most_voted_tx_hash'', ''most_voted_tx_data'', ''final_tx_hash'']"
  by (simp add: PeriodState_properties_def)

text \<open>
  C10. Each of the twelve property accessors of \<^verbatim>\<open>PeriodState\<close> fails with an error when
  the attribute of its name was never set, and returns the stored value when it was set,
  an empty or default value included.
\<close>

theorem PeriodState_accessor_strict:
  "(name, accessor) \<in> set PeriodState_properties \<Longrightarrow>
   (db s name = None \<longrightarrow> accessor s = Inl (AttributeNotSet name))
   \<and> (db s name = Some v \<longrightarrow> accessor s = Inr v)"
  by (auto simp: PeriodState_properties_def accessor_defs get_strict_def)

text \<open>
  C10 at \<^verbatim>\<open>final_tx_hash\<close> on a state without attributes and on one that holds the empty
  string, and at \<^verbatim>\<open>most_voted_strategy\<close> on a state that holds the empty dict.
\<close>

theorem PeriodState_accessor_strict_witness:
  "final_tx_hash \<lparr>db = Map.empty\<rparr> = Inl (AttributeNotSet ''final_tx_hash'')
   \<and> final_tx_hash \<lparr>db = [''final_tx_hash'' \<mapsto> PStr []]\<rparr> = Inr (PStr [])
   \<and> most_voted_strategy \<lparr>db = [''most_voted_strategy'' \<mapsto> PDict []]\<rparr> = Inr (PDict [])"
proof -
  have a: "(''final_tx_hash'', final_tx_hash) \<in> set PeriodState_properties"
    and b: "(''most_voted_strategy'', most_voted_strategy) \<in> set PeriodState_properties"
    by (simp_all add: PeriodState_properties_def)
  from PeriodState_accessor_strict [OF a, of "\<lparr>db = Map.empty\<rparr>"]
    PeriodState_accessor_strict [OF a, of "\<lparr>db = [''final_tx_hash'' \<mapsto> PStr []]\<rparr>" "PStr []"]
    PeriodState_accessor_strict
      [OF b, of "\<lparr>db = [''most_voted_strategy'' \<mapsto> PDict []]\<rparr>" "PDict []"]
  show ?thesis by simp
qed

end
